theory Spec2Isabelle
  imports Complex_Main "HOL-Library.AList"
begin

section \<open>JavaScript values as the handlers of server.js see them\<close>

text \<open>
  The request body is what \<^verbatim>\<open>bodyParser.json()\<close> hands to a handler: the object of a
  parsed JSON document, here the list \<open>props\<close> of its properties. A JSON value is one of
  the constructors below; \<open>JUndefined\<close> is what reading a property that is not there
  gives. A number of a JSON document is a finite double, \<open>JNum q\<close> with \<open>q\<close> its
  value (fractions included; the negative zero is \<open>JNum 0\<close>, from which the handlers
  cannot tell it), or an infinity, which \<^verbatim>\<open>JSON.parse\<close> gives for a literal beyond the
  range of the doubles. An object is its list of properties, read through \<open>map_of\<close>, so
  the first entry of a name is the property.
\<close>

datatype jsval =
    JUndefined
  | JNull
  | JBool bool
  | JNum rat
  | JInfinity
  | JNegInfinity
  | JStr string
  | JArr "jsval list"
  | JObj "(string \<times> jsval) list"

type_synonym props = "(string \<times> jsval) list"

text \<open>
  \<^verbatim>\<open>!x\<close> is \<open>\<not> truthy x\<close>: undefined, null, false, 0 and the empty string are falsy (a
  parsed JSON document holds no NaN).
\<close>

fun truthy :: "jsval \<Rightarrow> bool" where
  "truthy JUndefined = False"
| "truthy JNull = False"
| "truthy (JBool b) = b"
| "truthy (JNum q) = (q \<noteq> 0)"
| "truthy JInfinity = True"
| "truthy JNegInfinity = True"
| "truthy (JStr s) = (s \<noteq> [])"
| "truthy (JArr xs) = True"
| "truthy (JObj ps) = True"

fun nullish :: "jsval \<Rightarrow> bool" where
  "nullish JUndefined = True"
| "nullish JNull = True"
| "nullish v = False"

text \<open>
  \<^verbatim>\<open>const { name } = req.body\<close>: the property of the parsed body, undefined when
  absent.
\<close>

definition destructure :: "props \<Rightarrow> string \<Rightarrow> jsval" where
  "destructure ps name = (case map_of ps name of None \<Rightarrow> JUndefined | Some v \<Rightarrow> v)"

text \<open>
  \<^verbatim>\<open>v.name\<close> on a value that is not null or undefined (the caller checks that, since
  there the read throws). The handlers read only the names \<^verbatim>\<open>notes\<close>,
  \<^verbatim>\<open>course_slug\<close>, \<^verbatim>\<open>user_id\<close>, \<^verbatim>\<open>id\<close>, \<^verbatim>\<open>code\<close>, \<^verbatim>\<open>data\<close> and
  \<^verbatim>\<open>error\<close>, none of which a string, a number, a boolean or an array has.
\<close>

fun js_prop :: "jsval \<Rightarrow> string \<Rightarrow> jsval" where
  "js_prop (JObj ps) name = destructure ps name"
| "js_prop v name = JUndefined"

text \<open>\<^verbatim>\<open>v?.name\<close>: undefined on null and undefined, the property otherwise.\<close>

definition js_opt_prop :: "jsval \<Rightarrow> string \<Rightarrow> jsval" where
  "js_opt_prop v name = (if nullish v then JUndefined else js_prop v name)"

text \<open>\<^verbatim>\<open>name = dflt\<close> in a destructuring pattern: the default replaces undefined only.\<close>

definition or_default :: "jsval \<Rightarrow> jsval \<Rightarrow> jsval" where
  "or_default v dflt = (if v = JUndefined then dflt else v)"

subsection \<open>Conversion to string, as \<^verbatim>\<open>+\<close> with a string operand performs it\<close>

text \<open>
  The decimal digits of an integer: the string of an array index and of \<^verbatim>\<open>Date.now()\<close>,
  a whole number of milliseconds far below \<open>2 ^ 53\<close>.
\<close>

definition digit_char :: "nat \<Rightarrow> char" where
  "digit_char d = ''0123456789'' ! d"

fun digits10 :: "nat \<Rightarrow> string" where
  "digits10 n = (if n < 10 then [digit_char n] else digits10 (n div 10) @ [digit_char (n mod 10)])"

declare digits10.simps [simp del]

definition int_to_string :: "int \<Rightarrow> string" where
  "int_to_string i = (if i < 0 then CHR ''-'' # digits10 (nat (- i)) else digits10 (nat i))"

fun join_comma :: "string list \<Rightarrow> string" where
  "join_comma [] = []"
| "join_comma [s] = s"
| "join_comma (s # t # ss) = s @ '','' @ join_comma (t # ss)"

text \<open>
  The string of a value, \<open>None\<close> where the conversion throws a TypeError. The string
  of a finite number is the runtime's \<^verbatim>\<open>Number.prototype.toString\<close> (shortest digits that
  read back as the same double, exponent form from \<^verbatim>\<open>1e21\<close> on), which is not code of
  this repository: it is the parameter \<open>number_to_string\<close>. An array prints its
  elements joined by commas, null and undefined as nothing. A plain object prints as
  \<^verbatim>\<open>[object Object]\<close> through the \<^verbatim>\<open>toString\<close> it inherits; a property \<^verbatim>\<open>toString\<close> of
  its own, which in a parsed JSON document is never a function, hides the inherited one
  and the conversion throws.
\<close>

fun those_strings :: "string option list \<Rightarrow> string list option" where
  "those_strings [] = Some []"
| "those_strings (None # rest) = None"
| "those_strings (Some s # rest) =
     (case those_strings rest of None \<Rightarrow> None | Some ss \<Rightarrow> Some (s # ss))"

fun to_string :: "(rat \<Rightarrow> string) \<Rightarrow> jsval \<Rightarrow> string option" where
  "to_string number_to_string JUndefined = Some ''undefined''"
| "to_string number_to_string JNull = Some ''null''"
| "to_string number_to_string (JBool b) = Some (if b then ''true'' else ''false'')"
| "to_string number_to_string (JNum q) = Some (number_to_string q)"
| "to_string number_to_string JInfinity = Some ''Infinity''"
| "to_string number_to_string JNegInfinity = Some ''-Infinity''"
| "to_string number_to_string (JStr s) = Some s"
| "to_string number_to_string (JArr xs) =
     (case those_strings
             (map (\<lambda>x. if x = JUndefined \<or> x = JNull then Some []
                        else to_string number_to_string x) xs) of
        None \<Rightarrow> None
      | Some ss \<Rightarrow> Some (join_comma ss))"
| "to_string number_to_string (JObj ps) =
     (if map_of ps ''toString'' = None then Some ''[object Object]'' else None)"

text \<open>
  \<^verbatim>\<open>razorpay_order_id + "|" + razorpay_payment_id\<close>: with a string operand \<^verbatim>\<open>+\<close>
  concatenates the strings of its operands, left to right.
\<close>

definition signed_body :: "(rat \<Rightarrow> string) \<Rightarrow> jsval \<Rightarrow> jsval \<Rightarrow> string option" where
  "signed_body number_to_string razorpay_order_id razorpay_payment_id =
     (case to_string number_to_string razorpay_order_id of
        None \<Rightarrow> None
      | Some order_part \<Rightarrow>
          (case to_string number_to_string razorpay_payment_id of
             None \<Rightarrow> None
           | Some payment_part \<Rightarrow> Some (order_part @ ''|'' @ payment_part)))"

text \<open>
  \<^verbatim>\<open>{ ...v }\<close>: the own enumerable properties of \<open>v\<close>. An object gives its properties,
  an array and a string their elements under their indices, every other value nothing.
\<close>

fun spread :: "jsval \<Rightarrow> props" where
  "spread (JObj ps) = ps"
| "spread (JArr xs) = zip (map (\<lambda>i. int_to_string (int i)) [0..<length xs]) xs"
| "spread (JStr s) = zip (map (\<lambda>i. int_to_string (int i)) [0..<length s]) (map (\<lambda>c. JStr [c]) s)"
| "spread v = []"

section \<open>Responses, effects and the services a handler calls\<close>

text \<open>
  \<^verbatim>\<open>res.status(n).json(v)\<close> is the response with status \<open>n\<close> and body \<open>v\<close>;
  \<^verbatim>\<open>res.json(v)\<close> leaves the status at 200.
\<close>

record response =
  status :: nat
  json :: jsval

text \<open>What a handler does besides responding, in the order it does it.\<close>

datatype effect =
    ConsoleLog "jsval list"
  | ConsoleError "jsval list"
  | OrdersCreate jsval
  | OrdersFetch jsval
  | CoursesSingle jsval
  | UserCoursesInsert jsval

text \<open>The calls to the gateway and to the store, as opposed to lines of the server's log.\<close>

fun upstream_call :: "effect \<Rightarrow> bool" where
  "upstream_call (ConsoleLog xs) = False"
| "upstream_call (ConsoleError xs) = False"
| "upstream_call e = True"

text \<open>An awaited call resolves to a value or rejects with an error, which \<^verbatim>\<open>await\<close> throws.\<close>

datatype outcome = Resolved jsval | Rejected jsval

text \<open>
  The collaborators of a handler. The secret is \<^verbatim>\<open>process.env.RAZORPAY_KEY_SECRET\<close>,
  which may be unset. \<open>createHmac_sha256_hex key msg\<close> is
  \<^verbatim>\<open>crypto.createHmac("sha256", key).update(msg).digest("hex")\<close>, and \<open>Number_toString\<close>
  is the runtime's printing of a finite number. A handler calls each
  service at most once, so a service is the function from the argument of the call to its
  outcome:
  \<^item> \<open>orders_create\<close>: \<^verbatim>\<open>razorpay.orders.create(options)\<close>;
  \<^item> \<open>orders_fetch\<close>: \<^verbatim>\<open>razorpay.orders.fetch(id)\<close>;
  \<^item> \<open>courses_single\<close>: \<^verbatim>\<open>supabase.from("courses").select("id, slug").eq("slug", s).single()\<close>;
  \<^item> \<open>user_courses_insert\<close>: \<^verbatim>\<open>supabase.from("user_courses").insert(row)\<close>.
\<close>

record env =
  KEY_SECRET :: "string option"
  createHmac_sha256_hex :: "string \<Rightarrow> string \<Rightarrow> string"
  Number_toString :: "rat \<Rightarrow> string"
  Date_now :: int
  orders_create :: "jsval \<Rightarrow> outcome"
  orders_fetch :: "jsval \<Rightarrow> outcome"
  courses_single :: "jsval \<Rightarrow> outcome"
  user_courses_insert :: "jsval \<Rightarrow> outcome"

text \<open>
  The error the runtime throws: on reading a property of null or undefined, on a value
  with no string, and \<^verbatim>\<open>createHmac\<close> on a key that is undefined.
\<close>

definition TypeError :: jsval where
  "TypeError = JObj [(''name'', JStr ''TypeError'')]"

definition failure :: "string \<Rightarrow> jsval" where
  "failure msg = JObj [(''success'', JBool False), (''message'', JStr msg)]"

definition success :: jsval where
  "success = JObj [(''success'', JBool True)]"

section \<open>The first version of the server (lines 1 to 107)\<close>

text \<open>The \<^verbatim>\<open>catch\<close> block of create-order, the same in both versions.\<close>

definition create_catch :: "effect list \<Rightarrow> jsval \<Rightarrow> response \<times> effect list" where
  "create_catch tr err =
     (\<lparr>status = 500, json = JObj [(''error'', JStr ''Unable to create order'')]\<rparr>,
      tr @ [ConsoleError [JStr ''Create order error:'', err]])"

text \<open>The \<^verbatim>\<open>catch\<close> block of verify-payment, the same in both versions: log the error, answer 500.\<close>

definition verify_catch :: "effect list \<Rightarrow> jsval \<Rightarrow> response \<times> effect list" where
  "verify_catch tr err =
     (\<lparr>status = 500, json = failure ''Server error verifying payment''\<rparr>,
      tr @ [ConsoleError [JStr ''Verify error:'', err]])"

text \<open>\<^verbatim>\<open>receipt || "order_rcpt_" + Date.now()\<close>\<close>

definition receipt_or_default :: "env \<Rightarrow> jsval \<Rightarrow> jsval" where
  "receipt_or_default env receipt =
     (if truthy receipt then receipt else JStr (''order_rcpt_'' @ int_to_string (Date_now env)))"

text \<open>POST /create-order, lines 31 to 53. Reading \<^verbatim>\<open>order.id\<close> throws when the gateway resolved to null or undefined.\<close>

definition create_order_v1 :: "env \<Rightarrow> props \<Rightarrow> response \<times> effect list" where
  "create_order_v1 env req_body =
     (let amount = destructure req_body ''amount'';
          currency = or_default (destructure req_body ''currency'') (JStr ''INR'');
          receipt = destructure req_body ''receipt'';
          notes = destructure req_body ''notes''
      in
      if \<not> truthy amount then
        (\<lparr>status = 400, json = JObj [(''error'', JStr ''Amount is required'')]\<rparr>, [])
      else
        let options = JObj [(''amount'', amount), (''currency'', currency),
                            (''receipt'', receipt_or_default env receipt),
                            (''notes'', if truthy notes then notes else JObj [])]
        in
        (case orders_create env options of
           Rejected err \<Rightarrow> create_catch [OrdersCreate options] err
         | Resolved order \<Rightarrow>
             if nullish order then create_catch [OrdersCreate options] TypeError
             else
               (\<lparr>status = 200, json = order\<rparr>,
                [OrdersCreate options,
                 ConsoleLog [JStr ''Order created:'', js_prop order ''id'']])))"

text \<open>POST /verify-payment, lines 56 to 102: the signature check and nothing after it.\<close>

definition verify_payment_v1 :: "env \<Rightarrow> props \<Rightarrow> response \<times> effect list" where
  "verify_payment_v1 env req_body =
     (let razorpay_order_id = destructure req_body ''razorpay_order_id'';
          razorpay_payment_id = destructure req_body ''razorpay_payment_id'';
          razorpay_signature = destructure req_body ''razorpay_signature''
      in
      if \<not> truthy razorpay_order_id \<or> \<not> truthy razorpay_payment_id
         \<or> \<not> truthy razorpay_signature
      then (\<lparr>status = 400, json = failure ''Missing payment details''\<rparr>, [])
      else
        (case signed_body (Number_toString env) razorpay_order_id razorpay_payment_id of
           None \<Rightarrow> verify_catch [] TypeError
         | Some body \<Rightarrow>
             (case KEY_SECRET env of
                None \<Rightarrow> verify_catch [] TypeError
              | Some key \<Rightarrow>
                  let expectedSignature = createHmac_sha256_hex env key body;
                      isAuthentic = (JStr expectedSignature = razorpay_signature)
                  in
                  if \<not> isAuthentic then
                    (\<lparr>status = 400, json = failure ''Invalid signature''\<rparr>,
                     [ConsoleLog [JStr ''Invalid signature'',
                        JObj [(''expectedSignature'', JStr expectedSignature),
                              (''razorpay_signature'', razorpay_signature)]]])
                  else
                    (\<lparr>status = 200, json = success\<rparr>,
                     [ConsoleLog [JStr ''PAYMENT VERIFIED:'',
                        JObj [(''razorpay_order_id'', razorpay_order_id),
                              (''razorpay_payment_id'', razorpay_payment_id)]]]))))"

section \<open>The second version of the server (lines 109 to 318)\<close>

text \<open>
  POST /create-order, lines 154 to 203. In the object literal the two explicit
  properties stand after the spread of \<^verbatim>\<open>notes\<close>, so they replace properties of the
  same names.
\<close>

definition create_order_v2 :: "env \<Rightarrow> props \<Rightarrow> response \<times> effect list" where
  "create_order_v2 env req_body =
     (let amount = destructure req_body ''amount'';
          currency = or_default (destructure req_body ''currency'') (JStr ''INR'');
          receipt = destructure req_body ''receipt'';
          notes = destructure req_body ''notes'';
          course_slug = destructure req_body ''course_slug'';
          user_id = destructure req_body ''user_id'';
          t0 = [ConsoleLog [JStr ''CREATE ORDER BODY:'',
                  JObj [(''amount'', amount), (''course_slug'', course_slug),
                        (''user_id'', user_id)]]]
      in
      if \<not> truthy amount \<or> \<not> truthy course_slug \<or> \<not> truthy user_id then
        (\<lparr>status = 400,
          json = JObj [(''error'', JStr ''Amount, course_slug and user_id are required'')]\<rparr>,
         t0)
      else
        let options = JObj [(''amount'', amount), (''currency'', currency),
                            (''receipt'', receipt_or_default env receipt),
                            (''notes'',
                               JObj (AList.update ''user_id'' user_id
                                      (AList.update ''course_slug'' course_slug
                                        (spread notes))))];
            t1 = t0 @ [OrdersCreate options]
        in
        (case orders_create env options of
           Rejected err \<Rightarrow> create_catch t1 err
         | Resolved order \<Rightarrow>
             if nullish order then create_catch t1 TypeError
             else
               (\<lparr>status = 200, json = order\<rparr>,
                t1 @ [ConsoleLog [JStr ''Order created:'', js_prop order ''id'',
                        JStr ''user:'', user_id, JStr ''course:'', course_slug]])))"

text \<open>Steps 3 and 4 of verify-payment (lines 268 to 306): the course of the slug, then the grant.\<close>

definition grant_access :: "env \<Rightarrow> effect list \<Rightarrow> jsval \<Rightarrow> jsval \<Rightarrow> response \<times> effect list" where
  "grant_access env tr course_slug user_id =
     (let t3 = tr @ [CoursesSingle course_slug] in
      case courses_single env course_slug of
        Rejected err \<Rightarrow> verify_catch t3 err
      | Resolved r \<Rightarrow>
          if nullish r then verify_catch t3 TypeError
          else
            let course = js_prop r ''data'';
                courseError = js_prop r ''error'';
                t3' = t3 @ [ConsoleLog [JStr ''COURSE LOOKUP RESULT:'',
                        JObj [(''course_slug'', course_slug), (''course'', course),
                              (''courseError'', courseError)]]]
            in
            if truthy courseError \<or> \<not> truthy course then
              (\<lparr>status = 500,
                json = JObj [(''success'', JBool False), (''message'', JStr ''Course not found''),
                             (''slug_received'', course_slug)]\<rparr>,
               t3' @ [ConsoleError [JStr ''Course not found:'', courseError]])
            else
              let row = JObj [(''user_id'', user_id), (''course_id'', js_prop course ''id'')];
                  t4 = t3' @ [UserCoursesInsert row]
              in
              (case user_courses_insert env row of
                 Rejected err \<Rightarrow> verify_catch t4 err
               | Resolved r4 \<Rightarrow>
                   if nullish r4 then verify_catch t4 TypeError
                   else
                     let ucError = js_prop r4 ''error'' in
                     if truthy ucError \<and> js_prop ucError ''code'' \<noteq> JStr ''23505'' then
                       (\<lparr>status = 500, json = failure ''Could not grant access''\<rparr>,
                        t4 @ [ConsoleError [JStr ''Error inserting user_courses:'', ucError]])
                     else
                       (\<lparr>status = 200, json = success\<rparr>,
                        t4 @ [ConsoleLog [JStr ''Course access granted:'',
                                JObj [(''user_id'', user_id),
                                      (''course_id'', js_prop course ''id'')]]])))"

text \<open>POST /verify-payment, lines 212 to 313.\<close>

definition verify_payment_v2 :: "env \<Rightarrow> props \<Rightarrow> response \<times> effect list" where
  "verify_payment_v2 env req_body =
     (let razorpay_order_id = destructure req_body ''razorpay_order_id'';
          razorpay_payment_id = destructure req_body ''razorpay_payment_id'';
          razorpay_signature = destructure req_body ''razorpay_signature''
      in
      if \<not> truthy razorpay_order_id \<or> \<not> truthy razorpay_payment_id
         \<or> \<not> truthy razorpay_signature
      then (\<lparr>status = 400, json = failure ''Missing payment details''\<rparr>, [])
      else
        (case signed_body (Number_toString env) razorpay_order_id razorpay_payment_id of
           None \<Rightarrow> verify_catch [] TypeError
         | Some body \<Rightarrow>
             (case KEY_SECRET env of
                None \<Rightarrow> verify_catch [] TypeError
              | Some key \<Rightarrow>
                  let expectedSignature = createHmac_sha256_hex env key body in
                  if JStr expectedSignature \<noteq> razorpay_signature then
                    (\<lparr>status = 400, json = failure ''Invalid signature''\<rparr>,
                     [ConsoleLog [JStr ''Invalid signature'',
                        JObj [(''expectedSignature'', JStr expectedSignature),
                              (''razorpay_signature'', razorpay_signature)]]])
                  else
                    let t1 = [ConsoleLog [JStr ''PAYMENT VERIFIED:'',
                                JObj [(''razorpay_order_id'', razorpay_order_id),
                                      (''razorpay_payment_id'', razorpay_payment_id)]],
                              OrdersFetch razorpay_order_id]
                    in
                    (case orders_fetch env razorpay_order_id of
                       Rejected err \<Rightarrow> verify_catch t1 err
                     | Resolved order \<Rightarrow>
                         if nullish order then verify_catch t1 TypeError
                         else
                           let notes = js_prop order ''notes'';
                               course_slug = js_opt_prop notes ''course_slug'';
                               user_id = js_opt_prop notes ''user_id'';
                               t2 = t1 @ [ConsoleLog [JStr ''ORDER NOTES:'',
                                      JObj [(''notes'', notes), (''course_slug'', course_slug),
                                            (''user_id'', user_id)]]]
                           in
                           if \<not> truthy course_slug \<or> \<not> truthy user_id then
                             (\<lparr>status = 500, json = failure ''Missing metadata''\<rparr>,
                              t2 @ [ConsoleError
                                      [JStr ''Missing course_slug or user_id in order notes'']])
                           else grant_access env t2 course_slug user_id))))"

section \<open>The grant store\<close>

text \<open>
  Modelled from the spec: the persistent store behind the \<^verbatim>\<open>supabase\<close> client, an
  external database whose schema is not part of the repository. The spec's data model has
  the courses, each an id and a slug, which the server only reads, and the access grants,
  each a (user_id, course_id) pair that is unique in the store; the source's comment names
  the error code of the violated constraint (23505). A lookup by slug is an exact match
  and \<^verbatim>\<open>.single()\<close> reports an error unless exactly one row matches.
\<close>

record db =
  courses :: "(jsval \<times> jsval) list"
  user_courses :: "(jsval \<times> jsval) list"

text \<open>
  Modelled from the spec: the lookup of a course by its slug (section 4.4, "an
  exact-match lookup", failing "if zero rows match").
\<close>

definition db_courses_single :: "db \<Rightarrow> jsval \<Rightarrow> outcome" where
  "db_courses_single d slug =
     (case filter (\<lambda>row. snd row = slug) (courses d) of
        [row] \<Rightarrow>
          Resolved (JObj [(''data'', JObj [(''id'', fst row), (''slug'', snd row)]),
                          (''error'', JNull)])
      | _ \<Rightarrow>
          Resolved (JObj [(''data'', JNull),
                          (''error'', JObj [(''code'', JStr ''PGRST116'')])]))"

text \<open>
  Modelled from the spec: the insert of a grant, refused with the unique violation when
  the store holds the pair already (section 3, "a unique (user_id, course_id) pair").
\<close>

definition db_user_courses_insert :: "db \<Rightarrow> jsval \<Rightarrow> outcome \<times> db" where
  "db_user_courses_insert d row =
     (let grant = (js_prop row ''user_id'', js_prop row ''course_id'') in
      if grant \<in> set (user_courses d) then
        (Resolved (JObj [(''error'', JObj [(''code'', JStr ''23505'')])]), d)
      else
        (Resolved (JObj [(''error'', JNull)]), d\<lparr>user_courses := user_courses d @ [grant]\<rparr>))"

text \<open>
  A request sees the store as it is when the request starts: the insert is the only
  write of a handler and its last call to the store. The store after the request is the
  store with the inserts of the request's effects applied.
\<close>

definition env_of_db :: "env \<Rightarrow> db \<Rightarrow> env" where
  "env_of_db env d =
     env\<lparr>courses_single := db_courses_single d,
         user_courses_insert := (\<lambda>row. fst (db_user_courses_insert d row))\<rparr>"

fun db_apply :: "effect \<Rightarrow> db \<Rightarrow> db" where
  "db_apply (UserCoursesInsert row) d = snd (db_user_courses_insert d row)"
| "db_apply e d = d"

definition grant_access_on_db :: "env \<Rightarrow> db \<Rightarrow> jsval \<Rightarrow> jsval \<Rightarrow> response \<times> db" where
  "grant_access_on_db env d course_slug user_id =
     (let (res, effects) = grant_access (env_of_db env d) [] course_slug user_id
      in (res, fold db_apply effects d))"

section \<open>An example deployment\<close>

text \<open>
  The values of the spec's end-to-end scenario: the course \<^verbatim>\<open>intro-ts\<close>, the user
  \<^verbatim>\<open>u123\<close>, the payment \<^verbatim>\<open>pay_abc\<close>. The digest and the printing of numbers are
  stand-ins (the theorems below hold for every function in their place; the printing is
  the runtime's on whole numbers below \<open>2 ^ 53\<close>); the gateway echoes the notes it was
  given and knows one order. The store calls of \<open>example_gateway\<close> are replaced by those
  of a store.
\<close>

definition example_gateway :: env where
  "example_gateway =
     \<lparr>KEY_SECRET = Some ''s3cret'',
      createHmac_sha256_hex = (\<lambda>key msg. key @ ''/'' @ msg),
      Number_toString = (\<lambda>q. int_to_string (fst (quotient_of q)) @
                                (if snd (quotient_of q) = 1 then []
                                 else ''/'' @ int_to_string (snd (quotient_of q)))),
      Date_now = 1700000000000,
      orders_create = (\<lambda>options.
         Resolved (JObj [(''id'', JStr ''order_1''), (''notes'', js_prop options ''notes'')])),
      orders_fetch = (\<lambda>order_id.
         Resolved (JObj [(''id'', order_id),
                         (''notes'', JObj [(''course_slug'', JStr ''intro-ts''),
                                           (''user_id'', JStr ''u123'')])])),
      courses_single = (\<lambda>slug. Rejected JNull),
      user_courses_insert = (\<lambda>row. Rejected JNull)\<rparr>"

definition example_db :: db where
  "example_db = \<lparr>courses = [(JNum 7, JStr ''intro-ts'')], user_courses = []\<rparr>"

definition example_env :: env where
  "example_env = env_of_db example_gateway example_db"

text \<open>The same deployment with no course in the store.\<close>

definition example_env_without_course :: env where
  "example_env_without_course = env_of_db example_gateway (example_db\<lparr>courses := []\<rparr>)"

text \<open>The same deployment with a gateway whose order carries no user.\<close>

definition example_env_without_user :: env where
  "example_env_without_user =
     example_env\<lparr>orders_fetch := (\<lambda>order_id.
        Resolved (JObj [(''id'', order_id),
                        (''notes'', JObj [(''course_slug'', JStr ''intro-ts'')])]))\<rparr>"

text \<open>The same deployment with a store that refuses the insert for a reason of its own.\<close>

definition example_env_insert_denied :: env where
  "example_env_insert_denied =
     example_env\<lparr>user_courses_insert := (\<lambda>row.
        Resolved (JObj [(''error'', JObj [(''code'', JStr ''42501'')])]))\<rparr>"

definition example_confirmation :: props where
  "example_confirmation =
     [(''razorpay_order_id'', JStr ''order_1''),
      (''razorpay_payment_id'', JStr ''pay_abc''),
      (''razorpay_signature'', JStr ''s3cret/order_1|pay_abc'')]"

text \<open>The confirmation with the last character of its signature changed.\<close>

definition example_tampered :: props where
  "example_tampered =
     [(''razorpay_order_id'', JStr ''order_1''),
      (''razorpay_payment_id'', JStr ''pay_abc''),
      (''razorpay_signature'', JStr ''s3cret/order_1|pay_abd'')]"

definition example_purchase :: props where
  "example_purchase =
     [(''amount'', JNum 50000), (''receipt'', JStr ''rcpt_1''),
      (''notes'', JObj [(''course_slug'', JStr ''other''), (''campaign'', JStr ''spring'')]),
      (''course_slug'', JStr ''intro-ts''), (''user_id'', JStr ''u123'')]"

section \<open>Auxiliary facts\<close>

lemmas example_defs = example_gateway_def example_db_def example_env_def
  example_env_without_course_def example_env_without_user_def example_env_insert_denied_def
  example_confirmation_def example_tampered_def example_purchase_def
  env_of_db_def db_courses_single_def db_user_courses_insert_def

lemmas handler_defs = verify_payment_v2_def verify_payment_v1_def grant_access_def
  create_order_v1_def create_order_v2_def verify_catch_def create_catch_def
  receipt_or_default_def signed_body_def destructure_def js_opt_prop_def or_default_def
  Let_def

lemma destructure_absent: "map_of ps name = None \<Longrightarrow> destructure ps name = JUndefined"
  by (simp add: destructure_def)

lemma destructure_removed: "destructure (filter (\<lambda>p. fst p \<noteq> name) ps) name = JUndefined"
proof -
  have "map_of (filter (\<lambda>p. fst p \<noteq> name) ps) name = None"
    by (induction ps) auto
  then show ?thesis by (rule destructure_absent)
qed

lemma grant_access_responses:
  "fst (grant_access env tr course_slug user_id) \<in>
     {\<lparr>status = 200, json = success\<rparr>,
      \<lparr>status = 500, json = failure ''Server error verifying payment''\<rparr>,
      \<lparr>status = 500, json = failure ''Could not grant access''\<rparr>,
      \<lparr>status = 500,
        json = JObj [(''success'', JBool False), (''message'', JStr ''Course not found''),
                     (''slug_received'', course_slug)]\<rparr>}"
  by (simp add: grant_access_def Let_def verify_catch_def split: outcome.splits)

lemma grant_access_success_trace:
  assumes "fst (grant_access env tr course_slug user_id) = \<lparr>status = 200, json = success\<rparr>"
  shows "\<exists>row. filter upstream_call (snd (grant_access env tr course_slug user_id)) =
           filter upstream_call tr @ [CoursesSingle course_slug, UserCoursesInsert row]"
  using assms
  by (auto simp: grant_access_def Let_def verify_catch_def failure_def success_def
       split: outcome.splits if_splits)

lemma distinct_count_list_member:
  "distinct xs \<Longrightarrow> x \<in> set xs \<Longrightarrow> count_list xs x = 1"
  by (induction xs) auto

lemma db_courses_single_found:
  assumes "filter (\<lambda>c. snd c = course_slug) (courses d) = [(course_id, course_slug)]"
  shows "db_courses_single d course_slug =
           Resolved (JObj [(''data'', JObj [(''id'', course_id), (''slug'', course_slug)]),
                           (''error'', JNull)])"
  using assms by (simp add: db_courses_single_def)

lemma grant_access_on_db_found:
  assumes "filter (\<lambda>c. snd c = course_slug) (courses d) = [(course_id, course_slug)]"
  shows "grant_access_on_db env d course_slug user_id =
           (\<lparr>status = 200, json = success\<rparr>,
            if (user_id, course_id) \<in> set (user_courses d) then d
            else d\<lparr>user_courses := user_courses d @ [(user_id, course_id)]\<rparr>)"
  using db_courses_single_found [OF assms]
  by (simp add: grant_access_on_db_def grant_access_def env_of_db_def
        db_user_courses_insert_def destructure_def Let_def)


lemma grant_access_calls:
  "\<exists>row. filter upstream_call (snd (grant_access env tr course_slug user_id)) \<in>
     {filter upstream_call tr @ [CoursesSingle course_slug],
      filter upstream_call tr @ [CoursesSingle course_slug, UserCoursesInsert row]}"
  by (auto simp: grant_access_def Let_def verify_catch_def split: outcome.splits)

lemma grant_access_keeps_trace:
  "set tr \<subseteq> set (snd (grant_access env tr course_slug user_id))"
  by (auto simp: grant_access_def Let_def verify_catch_def split: outcome.splits)

section \<open>The signature check of verify-payment\<close>

text \<open>
  C1: in the second version, an insert into the grant store is attempted only if the
  secret is set and the supplied signature is the recomputed digest of
  \<^verbatim>\<open>order_id + "|" + payment_id\<close>; the same holds of every call to the gateway and to
  the store. On a mismatch the handler answers 400 at once: its only effect is the line it
  logs, so there is no order fetch, no course lookup and no insert.
\<close>

theorem verify_payment_v2_insert_needs_signature:
  assumes "destructure req_body ''razorpay_order_id'' = order_id"
    and "destructure req_body ''razorpay_payment_id'' = payment_id"
    and "destructure req_body ''razorpay_signature'' = signature"
  shows "(UserCoursesInsert row \<in> set (snd (verify_payment_v2 env req_body)) \<longrightarrow>
            (\<exists>key body. KEY_SECRET env = Some key \<and>
               signed_body (Number_toString env) order_id payment_id = Some body \<and>
               signature = JStr (createHmac_sha256_hex env key body)))
       \<and> ((\<exists>e \<in> set (snd (verify_payment_v2 env req_body)). upstream_call e) \<longrightarrow>
            (\<exists>key body. KEY_SECRET env = Some key \<and>
               signed_body (Number_toString env) order_id payment_id = Some body \<and>
               signature = JStr (createHmac_sha256_hex env key body)))
       \<and> (truthy order_id \<and> truthy payment_id \<and> truthy signature \<and>
           KEY_SECRET env = Some secret \<and> signed_body (Number_toString env) order_id payment_id = Some signed \<and>
           signature \<noteq> JStr (createHmac_sha256_hex env secret signed) \<longrightarrow>
            verify_payment_v2 env req_body =
              (\<lparr>status = 400, json = failure ''Invalid signature''\<rparr>,
               [ConsoleLog [JStr ''Invalid signature'',
                  JObj [(''expectedSignature'', JStr (createHmac_sha256_hex env secret signed)),
                        (''razorpay_signature'', signature)]]]))"
  using assms
  by (auto simp: verify_payment_v2_def Let_def verify_catch_def split: option.splits if_splits)

theorem verify_payment_v2_insert_needs_signature_witness:
  "UserCoursesInsert (JObj [(''user_id'', JStr ''u123''), (''course_id'', JNum 7)])
     \<in> set (snd (verify_payment_v2 example_env example_confirmation))
   \<and> KEY_SECRET example_env = Some ''s3cret''
   \<and> signed_body (Number_toString example_env) (JStr ''order_1'') (JStr ''pay_abc'') = Some ''order_1|pay_abc''
   \<and> destructure example_confirmation ''razorpay_signature'' =
       JStr (createHmac_sha256_hex example_env ''s3cret'' ''order_1|pay_abc'')
   \<and> destructure example_tampered ''razorpay_signature'' \<noteq>
       JStr (createHmac_sha256_hex example_env ''s3cret'' ''order_1|pay_abc'')
   \<and> verify_payment_v2 example_env example_tampered =
       (\<lparr>status = 400, json = failure ''Invalid signature''\<rparr>,
        [ConsoleLog [JStr ''Invalid signature'',
           JObj [(''expectedSignature'', JStr ''s3cret/order_1|pay_abc''),
                 (''razorpay_signature'', JStr ''s3cret/order_1|pay_abd'')]]])"
  using verify_payment_v2_insert_needs_signature
          [of example_confirmation "JStr ''order_1''" "JStr ''pay_abc''"
              "JStr ''s3cret/order_1|pay_abc''"
              "JObj [(''user_id'', JStr ''u123''), (''course_id'', JNum 7)]" example_env]
        verify_payment_v2_insert_needs_signature
          [of example_tampered "JStr ''order_1''" "JStr ''pay_abc''"
              "JStr ''s3cret/order_1|pay_abd''" _ example_env "''s3cret''" "''order_1|pay_abc''"]
  by (simp add: handler_defs signed_body_def example_defs)



text \<open>
  C3: a verify-payment request in which one of \<^verbatim>\<open>razorpay_order_id\<close>,
  \<^verbatim>\<open>razorpay_payment_id\<close>, \<^verbatim>\<open>razorpay_signature\<close> is absent is answered with status 400
  and the body \<^verbatim>\<open>{success: false, message: "Missing payment details"}\<close>, and the handler
  has no effect at all: no gateway fetch, no store access. The first version does the
  same.
\<close>

theorem verify_payment_v2_missing_field:
  assumes "map_of req_body ''razorpay_order_id'' = None
         \<or> map_of req_body ''razorpay_payment_id'' = None
         \<or> map_of req_body ''razorpay_signature'' = None"
  shows "verify_payment_v2 env req_body =
           (\<lparr>status = 400, json = failure ''Missing payment details''\<rparr>, [])
       \<and> verify_payment_v1 env req_body =
           (\<lparr>status = 400, json = failure ''Missing payment details''\<rparr>, [])"
  using assms by (auto simp: verify_payment_v2_def verify_payment_v1_def destructure_def)

theorem verify_payment_v2_missing_field_witness:
  "map_of [(''razorpay_order_id'', JStr ''order_1''), (''razorpay_payment_id'', JStr ''pay_abc'')]
     ''razorpay_signature'' = None
   \<and> verify_payment_v2 example_env
       [(''razorpay_order_id'', JStr ''order_1''), (''razorpay_payment_id'', JStr ''pay_abc'')] =
       (\<lparr>status = 400,
         json = JObj [(''success'', JBool False), (''message'', JStr ''Missing payment details'')]\<rparr>,
        [])"
  using verify_payment_v2_missing_field
          [of "[(''razorpay_order_id'', JStr ''order_1''), (''razorpay_payment_id'', JStr ''pay_abc'')]"
              example_env]
  by (simp add: failure_def)

section \<open>Metadata recovery\<close>

text \<open>
  C7: when the signature matches and the gateway returns an order whose notes lack a
  usable \<^verbatim>\<open>course_slug\<close> or \<^verbatim>\<open>user_id\<close>, the request ends with status 500 and a body
  \<^verbatim>\<open>{success: false, message}\<close> (the message is "Missing metadata", or the catch block's
  when the gateway resolved to no order at all), and neither the course lookup nor the
  grant insert is performed: the order fetch is the request's only call.
\<close>

theorem verify_payment_v2_missing_metadata:
  assumes "destructure req_body ''razorpay_order_id'' = order_id"
    and "destructure req_body ''razorpay_payment_id'' = payment_id"
    and "destructure req_body ''razorpay_signature'' = signature"
    and "truthy order_id" and "truthy payment_id" and "truthy signature"
    and "KEY_SECRET env = Some key"
    and "signed_body (Number_toString env) order_id payment_id = Some body"
    and "signature = JStr (createHmac_sha256_hex env key body)"
    and "orders_fetch env order_id = Resolved order"
    and "\<not> truthy (js_opt_prop (js_prop order ''notes'') ''course_slug'')
         \<or> \<not> truthy (js_opt_prop (js_prop order ''notes'') ''user_id'')"
  shows "fst (verify_payment_v2 env req_body) =
           \<lparr>status = 500,
             json = failure (if nullish order then ''Server error verifying payment''
                             else ''Missing metadata'')\<rparr>
       \<and> filter upstream_call (snd (verify_payment_v2 env req_body)) = [OrdersFetch order_id]"
  using assms
  by (auto simp: verify_payment_v2_def Let_def verify_catch_def)

theorem verify_payment_v2_missing_metadata_witness:
  "signed_body (Number_toString example_env_without_user) (JStr ''order_1'') (JStr ''pay_abc'') = Some ''order_1|pay_abc''
   \<and> destructure example_confirmation ''razorpay_signature'' =
       JStr (createHmac_sha256_hex example_env_without_user ''s3cret'' ''order_1|pay_abc'')
   \<and> orders_fetch example_env_without_user (JStr ''order_1'') =
       Resolved (JObj [(''id'', JStr ''order_1''),
                       (''notes'', JObj [(''course_slug'', JStr ''intro-ts'')])])
   \<and> \<not> truthy (js_opt_prop (JObj [(''course_slug'', JStr ''intro-ts'')]) ''user_id'')
   \<and> fst (verify_payment_v2 example_env_without_user example_confirmation) =
       \<lparr>status = 500, json = failure ''Missing metadata''\<rparr>
   \<and> filter upstream_call (snd (verify_payment_v2 example_env_without_user example_confirmation)) =
       [OrdersFetch (JStr ''order_1'')]"
proof -
  let ?order = "JObj [(''id'', JStr ''order_1''),
                      (''notes'', JObj [(''course_slug'', JStr ''intro-ts'')])]"
  have oid: "destructure example_confirmation ''razorpay_order_id'' = JStr ''order_1''"
    and pid: "destructure example_confirmation ''razorpay_payment_id'' = JStr ''pay_abc''"
    and sg: "destructure example_confirmation ''razorpay_signature'' = JStr ''s3cret/order_1|pay_abc''"
    by (simp_all add: destructure_def example_confirmation_def)
  have key: "KEY_SECRET example_env_without_user = Some ''s3cret''"
    by (simp add: example_defs)
  have signed: "signed_body (Number_toString example_env_without_user) (JStr ''order_1'') (JStr ''pay_abc'') = Some ''order_1|pay_abc''"
    by (simp add: signed_body_def)
  have digest: "JStr ''s3cret/order_1|pay_abc'' =
      JStr (createHmac_sha256_hex example_env_without_user ''s3cret'' ''order_1|pay_abc'')"
    by (simp add: example_defs)
  have fetched: "orders_fetch example_env_without_user (JStr ''order_1'') = Resolved ?order"
    by (simp add: example_defs)
  have lacks: "\<not> truthy (js_opt_prop (js_prop ?order ''notes'') ''course_slug'')
         \<or> \<not> truthy (js_opt_prop (js_prop ?order ''notes'') ''user_id'')"
    by (simp add: destructure_def js_opt_prop_def)
  have truthy: "truthy (JStr ''order_1'')" "truthy (JStr ''pay_abc'')"
      "truthy (JStr ''s3cret/order_1|pay_abc'')"
    by simp_all
  have no_user: "\<not> truthy (js_opt_prop (JObj [(''course_slug'', JStr ''intro-ts'')]) ''user_id'')"
    by (simp add: destructure_def js_opt_prop_def)
  have sg': "destructure example_confirmation ''razorpay_signature'' =
     JStr (createHmac_sha256_hex example_env_without_user ''s3cret'' ''order_1|pay_abc'')"
    using sg digest by (rule trans)
  from verify_payment_v2_missing_metadata
         [OF oid pid sg truthy key signed digest fetched lacks]
  have "fst (verify_payment_v2 example_env_without_user example_confirmation) =
       \<lparr>status = 500, json = failure ''Missing metadata''\<rparr>
   \<and> filter upstream_call (snd (verify_payment_v2 example_env_without_user example_confirmation)) =
       [OrdersFetch (JStr ''order_1'')]"
    by simp
  with signed sg' fetched no_user show ?thesis
    by blast
qed

section \<open>The access grant\<close>

text \<open>
  C4: in the access-grant step, when the course was found, an insert that the store
  refuses with error code 23505 (the unique violation) counts as success and the request
  is answered \<^verbatim>\<open>{success: true}\<close>; an insert error with any other code, and an insert
  that throws, end the request with status 500. Hence, on a store that keeps
  (user_id, course_id) unique, granting twice for the same user and course slug succeeds
  both times, the second run leaves the store as the first left it, and the store holds
  exactly one grant of the course to the user.
\<close>

theorem grant_access_unique_violation_is_success:
  "(courses_single env course_slug = Resolved r \<and>
    truthy (js_prop r ''data'') \<and> \<not> truthy (js_prop r ''error'') \<and>
    row = JObj [(''user_id'', user_id), (''course_id'', js_prop (js_prop r ''data'') ''id'')] \<longrightarrow>
      (user_courses_insert env row = Resolved r4 \<and>
       js_prop (js_prop r4 ''error'') ''code'' = JStr ''23505'' \<longrightarrow>
         fst (grant_access env tr course_slug user_id) = \<lparr>status = 200, json = success\<rparr>)
    \<and> (user_courses_insert env row = Resolved r4 \<and> truthy (js_prop r4 ''error'') \<and>
       js_prop (js_prop r4 ''error'') ''code'' \<noteq> JStr ''23505'' \<longrightarrow>
         fst (grant_access env tr course_slug user_id) =
           \<lparr>status = 500, json = failure ''Could not grant access''\<rparr>)
    \<and> (user_courses_insert env row = Rejected err \<longrightarrow>
         fst (grant_access env tr course_slug user_id) =
           \<lparr>status = 500, json = failure ''Server error verifying payment''\<rparr>))
   \<and> (filter (\<lambda>c. snd c = course_slug) (courses d) = [(course_id, course_slug)] \<and>
      distinct (user_courses d) \<and>
      grant_access_on_db env d course_slug user_id = (res1, d1) \<and>
      grant_access_on_db env d1 course_slug user_id = (res2, d2) \<longrightarrow>
        res1 = \<lparr>status = 200, json = success\<rparr> \<and> res2 = \<lparr>status = 200, json = success\<rparr> \<and>
        d2 = d1 \<and> count_list (user_courses d1) (user_id, course_id) = 1)"
proof (intro conjI impI)
  assume h: "courses_single env course_slug = Resolved r \<and>
    truthy (js_prop r ''data'') \<and> \<not> truthy (js_prop r ''error'') \<and>
    row = JObj [(''user_id'', user_id), (''course_id'', js_prop (js_prop r ''data'') ''id'')]"
  then have obj: "\<not> nullish r" by (cases r) auto
  {
    assume "user_courses_insert env row = Resolved r4 \<and>
       js_prop (js_prop r4 ''error'') ''code'' = JStr ''23505''"
    moreover from this have "\<not> nullish r4" by (cases r4) auto
    ultimately show "fst (grant_access env tr course_slug user_id) = \<lparr>status = 200, json = success\<rparr>"
      using h obj by (simp add: grant_access_def Let_def)
  }
  {
    assume "user_courses_insert env row = Resolved r4 \<and> truthy (js_prop r4 ''error'') \<and>
       js_prop (js_prop r4 ''error'') ''code'' \<noteq> JStr ''23505''"
    moreover from this have "\<not> nullish r4" by (cases r4) auto
    ultimately show "fst (grant_access env tr course_slug user_id) =
           \<lparr>status = 500, json = failure ''Could not grant access''\<rparr>"
      using h obj by (simp add: grant_access_def Let_def)
  }
  {
    assume "user_courses_insert env row = Rejected err"
    then show "fst (grant_access env tr course_slug user_id) =
           \<lparr>status = 500, json = failure ''Server error verifying payment''\<rparr>"
      using h obj by (simp add: grant_access_def Let_def verify_catch_def)
  }
next
  assume h: "filter (\<lambda>c. snd c = course_slug) (courses d) = [(course_id, course_slug)] \<and>
      distinct (user_courses d) \<and>
      grant_access_on_db env d course_slug user_id = (res1, d1) \<and>
      grant_access_on_db env d1 course_slug user_id = (res2, d2)"
  then have found: "filter (\<lambda>c. snd c = course_slug) (courses d) = [(course_id, course_slug)]"
    and dist: "distinct (user_courses d)"
    and run1: "grant_access_on_db env d course_slug user_id = (res1, d1)"
    and run2: "grant_access_on_db env d1 course_slug user_id = (res2, d2)"
    by simp_all
  from run1 show "res1 = \<lparr>status = 200, json = success\<rparr>"
    by (simp add: grant_access_on_db_found [OF found])
  from run1 have d1: "d1 = (if (user_id, course_id) \<in> set (user_courses d) then d
            else d\<lparr>user_courses := user_courses d @ [(user_id, course_id)]\<rparr>)"
    by (simp add: grant_access_on_db_found [OF found])
  then have found1: "filter (\<lambda>c. snd c = course_slug) (courses d1) = [(course_id, course_slug)]"
    using found by simp
  have held: "(user_id, course_id) \<in> set (user_courses d1)"
    using d1 by simp
  from run2 show "res2 = \<lparr>status = 200, json = success\<rparr>"
    by (simp add: grant_access_on_db_found [OF found1])
  from run2 held show "d2 = d1"
    by (simp add: grant_access_on_db_found [OF found1])
  have "distinct (user_courses d1)"
    using d1 dist by simp
  then show "count_list (user_courses d1) (user_id, course_id) = 1"
    using held by (rule distinct_count_list_member)
qed

theorem grant_access_unique_violation_is_success_witness:
  "user_courses_insert (env_of_db example_gateway (example_db\<lparr>user_courses := [(JStr ''u123'', JNum 7)]\<rparr>))
      (JObj [(''user_id'', JStr ''u123''), (''course_id'', JNum 7)]) =
     Resolved (JObj [(''error'', JObj [(''code'', JStr ''23505'')])])
   \<and> fst (grant_access (env_of_db example_gateway (example_db\<lparr>user_courses := [(JStr ''u123'', JNum 7)]\<rparr>))
            [] (JStr ''intro-ts'') (JStr ''u123'')) = \<lparr>status = 200, json = success\<rparr>
   \<and> user_courses_insert example_env_insert_denied
      (JObj [(''user_id'', JStr ''u123''), (''course_id'', JNum 7)]) =
     Resolved (JObj [(''error'', JObj [(''code'', JStr ''42501'')])])
   \<and> fst (grant_access example_env_insert_denied [] (JStr ''intro-ts'') (JStr ''u123'')) =
       \<lparr>status = 500, json = failure ''Could not grant access''\<rparr>
   \<and> grant_access_on_db example_gateway example_db (JStr ''intro-ts'') (JStr ''u123'') =
       (\<lparr>status = 200, json = success\<rparr>, example_db\<lparr>user_courses := [(JStr ''u123'', JNum 7)]\<rparr>)
   \<and> grant_access_on_db example_gateway (example_db\<lparr>user_courses := [(JStr ''u123'', JNum 7)]\<rparr>)
        (JStr ''intro-ts'') (JStr ''u123'') =
       (\<lparr>status = 200, json = success\<rparr>, example_db\<lparr>user_courses := [(JStr ''u123'', JNum 7)]\<rparr>)
   \<and> count_list (user_courses (example_db\<lparr>user_courses := [(JStr ''u123'', JNum 7)]\<rparr>))
        (JStr ''u123'', JNum 7) = 1"
proof -
  let ?granted = "example_db\<lparr>user_courses := [(JStr ''u123'', JNum 7)]\<rparr>"
  let ?held = "env_of_db example_gateway ?granted"
  let ?found = "JObj [(''data'', JObj [(''id'', JNum 7), (''slug'', JStr ''intro-ts'')]),
                      (''error'', JNull)]"
  let ?row = "JObj [(''user_id'', JStr ''u123''), (''course_id'', JNum 7)]"
  have lookup: "courses_single ?held (JStr ''intro-ts'') = Resolved ?found"
    "courses_single example_env_insert_denied (JStr ''intro-ts'') = Resolved ?found"
    by (simp_all add: example_defs)
  have course: "truthy (js_prop ?found ''data'')" "\<not> truthy (js_prop ?found ''error'')"
    "?row = JObj [(''user_id'', JStr ''u123''),
                  (''course_id'', js_prop (js_prop ?found ''data'') ''id'')]"
    by (simp_all add: destructure_def)
  have violated: "user_courses_insert ?held ?row =
      Resolved (JObj [(''error'', JObj [(''code'', JStr ''23505'')])])"
    by (simp add: example_defs destructure_def)
  have denied: "user_courses_insert example_env_insert_denied ?row =
      Resolved (JObj [(''error'', JObj [(''code'', JStr ''42501'')])])"
    by (simp add: example_defs)
  have run1: "grant_access_on_db example_gateway example_db (JStr ''intro-ts'') (JStr ''u123'') =
       (\<lparr>status = 200, json = success\<rparr>, ?granted)"
    by (simp add: grant_access_on_db_def handler_defs example_defs)
  have run2: "grant_access_on_db example_gateway ?granted (JStr ''intro-ts'') (JStr ''u123'') =
       (\<lparr>status = 200, json = success\<rparr>, ?granted)"
    by (simp add: grant_access_on_db_def handler_defs example_defs)
  have store: "filter (\<lambda>c. snd c = JStr ''intro-ts'') (courses example_db) = [(JNum 7, JStr ''intro-ts'')]"
    "distinct (user_courses example_db)"
    by (simp_all add: example_db_def)
  have code: "js_prop (js_prop (JObj [(''error'', JObj [(''code'', JStr ''23505'')])]) ''error'') ''code''
      = JStr ''23505''"
    "truthy (js_prop (JObj [(''error'', JObj [(''code'', JStr ''42501'')])]) ''error'')"
    "js_prop (js_prop (JObj [(''error'', JObj [(''code'', JStr ''42501'')])]) ''error'') ''code''
      \<noteq> JStr ''23505''"
    by (simp_all add: destructure_def)
  note claim = grant_access_unique_violation_is_success
  have "fst (grant_access ?held [] (JStr ''intro-ts'') (JStr ''u123'')) = \<lparr>status = 200, json = success\<rparr>"
    using claim [where env = ?held and course_slug = "JStr ''intro-ts''" and r = ?found
                   and row = ?row and user_id = "JStr ''u123''" and tr = "[]"
                   and ?r4.0 = "JObj [(''error'', JObj [(''code'', JStr ''23505'')])]"]
          lookup(1) course violated code(1)
    by blast
  moreover have "fst (grant_access example_env_insert_denied [] (JStr ''intro-ts'') (JStr ''u123'')) =
       \<lparr>status = 500, json = failure ''Could not grant access''\<rparr>"
    using claim [where env = example_env_insert_denied and course_slug = "JStr ''intro-ts''"
                   and r = ?found and row = ?row and user_id = "JStr ''u123''" and tr = "[]"
                   and ?r4.0 = "JObj [(''error'', JObj [(''code'', JStr ''42501'')])]"]
          lookup(2) course denied code(2,3)
    by blast
  moreover have "count_list (user_courses ?granted) (JStr ''u123'', JNum 7) = 1"
    using claim [where env = example_gateway and course_slug = "JStr ''intro-ts''"
                   and user_id = "JStr ''u123''" and d = example_db and course_id = "JNum 7"
                   and ?res1.0 = "\<lparr>status = 200, json = success\<rparr>" and ?d1.0 = ?granted
                   and ?res2.0 = "\<lparr>status = 200, json = success\<rparr>" and ?d2.0 = ?granted]
          store run1 run2
    by blast
  ultimately show ?thesis
    using violated denied run1 run2 by blast
qed

section \<open>The responses of verify-payment\<close>

text \<open>
  C6, as amended: every response of the second version's verify-payment is the success
  response, or one of five fixed error responses whose body is exactly
  \<^verbatim>\<open>{success: false, message}\<close> with a constant message (no error value, no store or
  gateway reply reaches the body), or the course-not-found response, status 500, whose body
  has a third property \<^verbatim>\<open>slug_received\<close> holding the \<^verbatim>\<open>course_slug\<close> read from the notes of
  the order the gateway returned. The first version has the success response and three
  of the fixed error responses.
\<close>

theorem verify_payment_v2_responses:
  "(fst (verify_payment_v2 env req_body) \<in>
     {\<lparr>status = 200, json = success\<rparr>,
      \<lparr>status = 400, json = failure ''Missing payment details''\<rparr>,
      \<lparr>status = 400, json = failure ''Invalid signature''\<rparr>,
      \<lparr>status = 500, json = failure ''Server error verifying payment''\<rparr>,
      \<lparr>status = 500, json = failure ''Missing metadata''\<rparr>,
      \<lparr>status = 500, json = failure ''Could not grant access''\<rparr>}
    \<or> (\<exists>order. orders_fetch env (destructure req_body ''razorpay_order_id'') = Resolved order \<and>
         fst (verify_payment_v2 env req_body) =
           \<lparr>status = 500,
             json = JObj [(''success'', JBool False), (''message'', JStr ''Course not found''),
                          (''slug_received'',
                           js_opt_prop (js_prop order ''notes'') ''course_slug'')]\<rparr>))
   \<and> fst (verify_payment_v1 env req_body) \<in>
     {\<lparr>status = 200, json = success\<rparr>,
      \<lparr>status = 400, json = failure ''Missing payment details''\<rparr>,
      \<lparr>status = 400, json = failure ''Invalid signature''\<rparr>,
      \<lparr>status = 500, json = failure ''Server error verifying payment''\<rparr>}"
proof
  show "fst (verify_payment_v2 env req_body) \<in>
     {\<lparr>status = 200, json = success\<rparr>,
      \<lparr>status = 400, json = failure ''Missing payment details''\<rparr>,
      \<lparr>status = 400, json = failure ''Invalid signature''\<rparr>,
      \<lparr>status = 500, json = failure ''Server error verifying payment''\<rparr>,
      \<lparr>status = 500, json = failure ''Missing metadata''\<rparr>,
      \<lparr>status = 500, json = failure ''Could not grant access''\<rparr>}
    \<or> (\<exists>order. orders_fetch env (destructure req_body ''razorpay_order_id'') = Resolved order \<and>
         fst (verify_payment_v2 env req_body) =
           \<lparr>status = 500,
             json = JObj [(''success'', JBool False), (''message'', JStr ''Course not found''),
                          (''slug_received'',
                           js_opt_prop (js_prop order ''notes'') ''course_slug'')]\<rparr>)"
    using grant_access_responses
    by (auto simp: verify_payment_v2_def Let_def verify_catch_def
          split: option.splits outcome.splits)
  show "fst (verify_payment_v1 env req_body) \<in>
     {\<lparr>status = 200, json = success\<rparr>,
      \<lparr>status = 400, json = failure ''Missing payment details''\<rparr>,
      \<lparr>status = 400, json = failure ''Invalid signature''\<rparr>,
      \<lparr>status = 500, json = failure ''Server error verifying payment''\<rparr>}"
    by (simp add: verify_payment_v1_def Let_def verify_catch_def split: option.splits)
qed

theorem verify_payment_v2_responses_witness:
  "fst (verify_payment_v2 example_env example_confirmation) = \<lparr>status = 200, json = success\<rparr>
   \<and> fst (verify_payment_v2 example_env example_tampered) =
        \<lparr>status = 400, json = failure ''Invalid signature''\<rparr>
   \<and> (fst (verify_payment_v2 example_env_insert_denied example_confirmation) \<in>
       {\<lparr>status = 200, json = success\<rparr>,
        \<lparr>status = 400, json = failure ''Missing payment details''\<rparr>,
        \<lparr>status = 400, json = failure ''Invalid signature''\<rparr>,
        \<lparr>status = 500, json = failure ''Server error verifying payment''\<rparr>,
        \<lparr>status = 500, json = failure ''Missing metadata''\<rparr>,
        \<lparr>status = 500, json = failure ''Could not grant access''\<rparr>}
      \<or> (\<exists>order. orders_fetch example_env_insert_denied
                     (destructure example_confirmation ''razorpay_order_id'') = Resolved order \<and>
            fst (verify_payment_v2 example_env_insert_denied example_confirmation) =
              \<lparr>status = 500,
                json = JObj [(''success'', JBool False), (''message'', JStr ''Course not found''),
                             (''slug_received'',
                              js_opt_prop (js_prop order ''notes'') ''course_slug'')]\<rparr>))"
proof -
  have "fst (verify_payment_v2 example_env example_confirmation) = \<lparr>status = 200, json = success\<rparr>"
    by (simp add: handler_defs example_defs)
  moreover have "fst (verify_payment_v2 example_env example_tampered) =
        \<lparr>status = 400, json = failure ''Invalid signature''\<rparr>"
    by (simp add: handler_defs example_defs)
  moreover note verify_payment_v2_responses
                  [of example_env_insert_denied example_confirmation, THEN conjunct1]
  ultimately show ?thesis
    by blast
qed

text \<open>
  The claim as stated fails where the course of the order is not in the store: the body
  of the 500 response is not of the shape \<^verbatim>\<open>{success: false, message}\<close>, it echoes the
  slug that came back from the gateway.
\<close>

theorem verify_payment_v2_course_not_found_counterexample:
  "orders_fetch example_env_without_course (JStr ''order_1'') =
     Resolved (JObj [(''id'', JStr ''order_1''),
                     (''notes'', JObj [(''course_slug'', JStr ''intro-ts''),
                                       (''user_id'', JStr ''u123'')])])
   \<and> fst (verify_payment_v2 example_env_without_course example_confirmation) =
       \<lparr>status = 500,
         json = JObj [(''success'', JBool False), (''message'', JStr ''Course not found''),
                      (''slug_received'', JStr ''intro-ts'')]\<rparr>
   \<and> json (fst (verify_payment_v2 example_env_without_course example_confirmation)) \<noteq>
       failure ''Course not found''"
  by (simp add: handler_defs example_defs failure_def)

section \<open>Field checks of create-order\<close>

text \<open>
  C5, as amended: the second version answers a create-order request in which
  \<^verbatim>\<open>amount\<close>, \<^verbatim>\<open>course_slug\<close> or \<^verbatim>\<open>user_id\<close> is missing or empty (falsy) with status 400
  and an error body, and makes no gateway call: its only effect is the line it logs on
  entry. The first version checks \<^verbatim>\<open>amount\<close> alone: a falsy amount is answered with 400
  and no effect, and every request with a truthy amount reaches the gateway, whatever its
  \<^verbatim>\<open>course_slug\<close> and \<^verbatim>\<open>user_id\<close>.
\<close>

theorem create_order_missing_field:
  assumes "destructure req_body ''amount'' = amount"
    and "destructure req_body ''course_slug'' = course_slug"
    and "destructure req_body ''user_id'' = user_id"
  shows "(\<not> truthy amount \<or> \<not> truthy course_slug \<or> \<not> truthy user_id \<longrightarrow>
            create_order_v2 env req_body =
              (\<lparr>status = 400,
                json = JObj [(''error'', JStr ''Amount, course_slug and user_id are required'')]\<rparr>,
               [ConsoleLog [JStr ''CREATE ORDER BODY:'',
                  JObj [(''amount'', amount), (''course_slug'', course_slug),
                        (''user_id'', user_id)]]]))
       \<and> (\<not> truthy amount \<longrightarrow>
            create_order_v1 env req_body =
              (\<lparr>status = 400, json = JObj [(''error'', JStr ''Amount is required'')]\<rparr>, []))
       \<and> (truthy amount \<longrightarrow>
            (\<exists>options. OrdersCreate options \<in> set (snd (create_order_v1 env req_body))))"
  using assms
  by (auto simp: create_order_v2_def create_order_v1_def create_catch_def Let_def
       split: outcome.splits)

theorem create_order_missing_field_witness:
  "\<not> truthy (destructure [(''amount'', JNum 50000), (''course_slug'', JStr ''intro-ts'')] ''user_id'')
   \<and> create_order_v2 example_env [(''amount'', JNum 50000), (''course_slug'', JStr ''intro-ts'')] =
       (\<lparr>status = 400,
         json = JObj [(''error'', JStr ''Amount, course_slug and user_id are required'')]\<rparr>,
        [ConsoleLog [JStr ''CREATE ORDER BODY:'',
           JObj [(''amount'', JNum 50000), (''course_slug'', JStr ''intro-ts''),
                 (''user_id'', JUndefined)]]])
   \<and> \<not> truthy (destructure [(''amount'', JStr ''''), (''course_slug'', JStr ''intro-ts'')] ''amount'')
   \<and> create_order_v1 example_env [(''amount'', JStr ''''), (''course_slug'', JStr ''intro-ts'')] =
       (\<lparr>status = 400, json = JObj [(''error'', JStr ''Amount is required'')]\<rparr>, [])"
  using create_order_missing_field
          [of "[(''amount'', JNum 50000), (''course_slug'', JStr ''intro-ts'')]"
              "JNum 50000" "JStr ''intro-ts''" JUndefined example_env]
        create_order_missing_field
          [of "[(''amount'', JStr ''''), (''course_slug'', JStr ''intro-ts'')]"
              "JStr ''''" "JStr ''intro-ts''" JUndefined example_env]
  by (simp add: destructure_def)

text \<open>
  The claim as stated fails on the first version: a request with an amount and neither
  \<^verbatim>\<open>course_slug\<close> nor \<^verbatim>\<open>user_id\<close> creates an order and is answered 200.
\<close>

theorem create_order_v1_without_course_counterexample:
  "destructure [(''amount'', JNum 50000), (''receipt'', JStr ''rcpt_1'')] ''course_slug'' = JUndefined
   \<and> destructure [(''amount'', JNum 50000), (''receipt'', JStr ''rcpt_1'')] ''user_id'' = JUndefined
   \<and> create_order_v1 example_env [(''amount'', JNum 50000), (''receipt'', JStr ''rcpt_1'')] =
       (\<lparr>status = 200, json = JObj [(''id'', JStr ''order_1''), (''notes'', JObj [])]\<rparr>,
        [OrdersCreate (JObj [(''amount'', JNum 50000), (''currency'', JStr ''INR''),
                             (''receipt'', JStr ''rcpt_1''), (''notes'', JObj [])]),
         ConsoleLog [JStr ''Order created:'', JStr ''order_1'']])"
  by (simp add: handler_defs example_defs)

text \<open>
  C9: in the second version, the options of every order the handler creates carry, in
  their notes, the \<^verbatim>\<open>course_slug\<close> and the \<^verbatim>\<open>user_id\<close> of the request's top level,
  whatever the request's own \<^verbatim>\<open>notes\<close> holds under these names; and a request answered
  200 did create an order.
\<close>

theorem create_order_v2_notes_carry_course_and_user:
  assumes "destructure req_body ''course_slug'' = course_slug"
    and "destructure req_body ''user_id'' = user_id"
  shows "(OrdersCreate options \<in> set (snd (create_order_v2 env req_body)) \<longrightarrow>
            js_prop (js_prop options ''notes'') ''course_slug'' = course_slug \<and>
            js_prop (js_prop options ''notes'') ''user_id'' = user_id)
       \<and> (status (fst (create_order_v2 env req_body)) = 200 \<longrightarrow>
            (\<exists>options'. OrdersCreate options' \<in> set (snd (create_order_v2 env req_body))))"
  using assms
  by (auto simp: create_order_v2_def create_catch_def Let_def destructure_def update_conv'
       split: outcome.splits if_splits)

theorem create_order_v2_notes_carry_course_and_user_witness:
  "js_prop (destructure example_purchase ''notes'') ''course_slug'' = JStr ''other''
   \<and> destructure example_purchase ''course_slug'' = JStr ''intro-ts''
   \<and> status (fst (create_order_v2 example_env example_purchase)) = 200
   \<and> OrdersCreate
        (JObj [(''amount'', JNum 50000), (''currency'', JStr ''INR''),
               (''receipt'', JStr ''rcpt_1''),
               (''notes'', JObj [(''course_slug'', JStr ''intro-ts''),
                                 (''campaign'', JStr ''spring''), (''user_id'', JStr ''u123'')])])
        \<in> set (snd (create_order_v2 example_env example_purchase))
   \<and> js_prop (js_prop
        (JObj [(''amount'', JNum 50000), (''currency'', JStr ''INR''),
               (''receipt'', JStr ''rcpt_1''),
               (''notes'', JObj [(''course_slug'', JStr ''intro-ts''),
                                 (''campaign'', JStr ''spring''), (''user_id'', JStr ''u123'')])])
        ''notes'') ''course_slug'' = JStr ''intro-ts''"
proof -
  let ?options = "JObj [(''amount'', JNum 50000), (''currency'', JStr ''INR''),
               (''receipt'', JStr ''rcpt_1''),
               (''notes'', JObj [(''course_slug'', JStr ''intro-ts''),
                                 (''campaign'', JStr ''spring''), (''user_id'', JStr ''u123'')])]"
  have request: "destructure example_purchase ''course_slug'' = JStr ''intro-ts''"
    "destructure example_purchase ''user_id'' = JStr ''u123''"
    "js_prop (destructure example_purchase ''notes'') ''course_slug'' = JStr ''other''"
    by (simp_all add: destructure_def example_purchase_def)
  have run: "create_order_v2 example_env example_purchase =
      (\<lparr>status = 200,
        json = JObj [(''id'', JStr ''order_1''),
                     (''notes'', JObj [(''course_slug'', JStr ''intro-ts''),
                                       (''campaign'', JStr ''spring''),
                                       (''user_id'', JStr ''u123'')])]\<rparr>,
       [ConsoleLog [JStr ''CREATE ORDER BODY:'',
          JObj [(''amount'', JNum 50000), (''course_slug'', JStr ''intro-ts''),
                (''user_id'', JStr ''u123'')]],
        OrdersCreate ?options,
        ConsoleLog [JStr ''Order created:'', JStr ''order_1'', JStr ''user:'', JStr ''u123'',
                    JStr ''course:'', JStr ''intro-ts'']])"
    by (simp add: handler_defs example_defs)
  then have made: "OrdersCreate ?options \<in> set (snd (create_order_v2 example_env example_purchase))"
    and ok: "status (fst (create_order_v2 example_env example_purchase)) = 200"
    by simp_all
  from create_order_v2_notes_carry_course_and_user
         [OF request(1,2), of ?options example_env] made
  have "js_prop (js_prop ?options ''notes'') ''course_slug'' = JStr ''intro-ts''"
    by blast
  with request made ok show ?thesis
    by blast
qed

section \<open>The two versions\<close>

text \<open>
  C8, as amended: the two versions of verify-payment differ. On a confirmation with a
  valid signature the first version answers \<^verbatim>\<open>{success: true}\<close> and its only effect is
  a log line: no order fetch, no course lookup, no insert. The second version fetches
  the order on every such confirmation and goes no further than its guards let it: its
  calls are the order fetch alone, or the fetch and the course lookup, or the fetch, the
  lookup and the grant insert, in this order; whenever it answers \<^verbatim>\<open>{success: true}\<close> it
  made all three. There is a deployment and a request on which the two responses differ.
\<close>

theorem verify_payment_versions_differ:
  "(truthy (destructure req_body ''razorpay_order_id'') \<and>
    truthy (destructure req_body ''razorpay_payment_id'') \<and>
    truthy (destructure req_body ''razorpay_signature'') \<and>
    KEY_SECRET env = Some key \<and>
    signed_body (Number_toString env) (destructure req_body ''razorpay_order_id'')
                (destructure req_body ''razorpay_payment_id'') = Some body \<and>
    destructure req_body ''razorpay_signature'' = JStr (createHmac_sha256_hex env key body) \<longrightarrow>
    verify_payment_v1 env req_body =
      (\<lparr>status = 200, json = success\<rparr>,
       [ConsoleLog [JStr ''PAYMENT VERIFIED:'',
          JObj [(''razorpay_order_id'', destructure req_body ''razorpay_order_id''),
                (''razorpay_payment_id'', destructure req_body ''razorpay_payment_id'')]]])
    \<and> OrdersFetch (destructure req_body ''razorpay_order_id'')
          \<in> set (snd (verify_payment_v2 env req_body))
    \<and> (\<exists>course_slug row.
         filter upstream_call (snd (verify_payment_v2 env req_body)) \<in>
           {[OrdersFetch (destructure req_body ''razorpay_order_id'')],
            [OrdersFetch (destructure req_body ''razorpay_order_id''),
             CoursesSingle course_slug],
            [OrdersFetch (destructure req_body ''razorpay_order_id''),
             CoursesSingle course_slug, UserCoursesInsert row]}))
   \<and> (fst (verify_payment_v2 env req_body) = \<lparr>status = 200, json = success\<rparr> \<longrightarrow>
      (\<exists>course_slug row.
         filter upstream_call (snd (verify_payment_v2 env req_body)) =
           [OrdersFetch (destructure req_body ''razorpay_order_id''),
            CoursesSingle course_slug, UserCoursesInsert row]))
   \<and> (\<exists>env' req_body'.
        fst (verify_payment_v1 env' req_body') \<noteq> fst (verify_payment_v2 env' req_body'))"
proof (intro conjI impI)
  assume h: "truthy (destructure req_body ''razorpay_order_id'') \<and>
    truthy (destructure req_body ''razorpay_payment_id'') \<and>
    truthy (destructure req_body ''razorpay_signature'') \<and>
    KEY_SECRET env = Some key \<and>
    signed_body (Number_toString env) (destructure req_body ''razorpay_order_id'')
                (destructure req_body ''razorpay_payment_id'') = Some body \<and>
    destructure req_body ''razorpay_signature'' = JStr (createHmac_sha256_hex env key body)"
  then show "verify_payment_v1 env req_body =
      (\<lparr>status = 200, json = success\<rparr>,
       [ConsoleLog [JStr ''PAYMENT VERIFIED:'',
          JObj [(''razorpay_order_id'', destructure req_body ''razorpay_order_id''),
                (''razorpay_payment_id'', destructure req_body ''razorpay_payment_id'')]]])"
    by (auto simp: verify_payment_v1_def Let_def)
  have "OrdersFetch order_id \<in> set (snd (grant_access env tr course_slug user_id))"
    if "OrdersFetch order_id \<in> set tr" for tr course_slug user_id order_id
    using that grant_access_keeps_trace [of tr env course_slug user_id] by auto
  with h show "OrdersFetch (destructure req_body ''razorpay_order_id'')
          \<in> set (snd (verify_payment_v2 env req_body))"
    by (auto simp: verify_payment_v2_def Let_def verify_catch_def split: outcome.splits)
  show "\<exists>course_slug row.
         filter upstream_call (snd (verify_payment_v2 env req_body)) \<in>
           {[OrdersFetch (destructure req_body ''razorpay_order_id'')],
            [OrdersFetch (destructure req_body ''razorpay_order_id''),
             CoursesSingle course_slug],
            [OrdersFetch (destructure req_body ''razorpay_order_id''),
             CoursesSingle course_slug, UserCoursesInsert row]}"
  proof (cases "\<exists>order. orders_fetch env (destructure req_body ''razorpay_order_id'') = Resolved order
                  \<and> \<not> nullish order
                  \<and> truthy (js_opt_prop (js_prop order ''notes'') ''course_slug'')
                  \<and> truthy (js_opt_prop (js_prop order ''notes'') ''user_id'')")
    case False
    with h have "filter upstream_call (snd (verify_payment_v2 env req_body)) =
        [OrdersFetch (destructure req_body ''razorpay_order_id'')]"
      by (auto simp: verify_payment_v2_def Let_def verify_catch_def split: outcome.splits)
    then show ?thesis by simp
  next
    case True
    then obtain order where
      fetched: "orders_fetch env (destructure req_body ''razorpay_order_id'') = Resolved order"
      and usable: "\<not> nullish order"
        "truthy (js_opt_prop (js_prop order ''notes'') ''course_slug'')"
        "truthy (js_opt_prop (js_prop order ''notes'') ''user_id'')"
      by blast
    let ?slug = "js_opt_prop (js_prop order ''notes'') ''course_slug''"
    let ?t2 = "[ConsoleLog [JStr ''PAYMENT VERIFIED:'',
           JObj [(''razorpay_order_id'', destructure req_body ''razorpay_order_id''),
                 (''razorpay_payment_id'', destructure req_body ''razorpay_payment_id'')]],
         OrdersFetch (destructure req_body ''razorpay_order_id''),
         ConsoleLog [JStr ''ORDER NOTES:'',
           JObj [(''notes'', js_prop order ''notes''),
                 (''course_slug'', ?slug),
                 (''user_id'', js_opt_prop (js_prop order ''notes'') ''user_id'')]]]"
    from h fetched usable have run: "verify_payment_v2 env req_body =
        grant_access env ?t2 ?slug (js_opt_prop (js_prop order ''notes'') ''user_id'')"
      by (auto simp: verify_payment_v2_def Let_def)
    from grant_access_calls [of env ?t2 ?slug "js_opt_prop (js_prop order ''notes'') ''user_id''"]
    obtain row where "filter upstream_call (snd (verify_payment_v2 env req_body)) \<in>
        {[OrdersFetch (destructure req_body ''razorpay_order_id''), CoursesSingle ?slug],
         [OrdersFetch (destructure req_body ''razorpay_order_id''), CoursesSingle ?slug,
          UserCoursesInsert row]}"
      unfolding run by auto
    then show ?thesis by blast
  qed
next
  assume ok: "fst (verify_payment_v2 env req_body) = \<lparr>status = 200, json = success\<rparr>"
  have differ: "failure msg \<noteq> success" for msg
    by (simp add: failure_def success_def)
  from ok obtain order where
    granted: "verify_payment_v2 env req_body =
      grant_access env
        [ConsoleLog [JStr ''PAYMENT VERIFIED:'',
           JObj [(''razorpay_order_id'', destructure req_body ''razorpay_order_id''),
                 (''razorpay_payment_id'', destructure req_body ''razorpay_payment_id'')]],
         OrdersFetch (destructure req_body ''razorpay_order_id''),
         ConsoleLog [JStr ''ORDER NOTES:'',
           JObj [(''notes'', js_prop order ''notes''),
                 (''course_slug'', js_opt_prop (js_prop order ''notes'') ''course_slug''),
                 (''user_id'', js_opt_prop (js_prop order ''notes'') ''user_id'')]]]
        (js_opt_prop (js_prop order ''notes'') ''course_slug'')
        (js_opt_prop (js_prop order ''notes'') ''user_id'')"
    by (auto simp: verify_payment_v2_def Let_def verify_catch_def differ
          split: option.splits outcome.splits if_splits)
  with ok grant_access_success_trace
  show "\<exists>course_slug row.
         filter upstream_call (snd (verify_payment_v2 env req_body)) =
           [OrdersFetch (destructure req_body ''razorpay_order_id''),
            CoursesSingle course_slug, UserCoursesInsert row]"
    by fastforce
next
  have "fst (verify_payment_v1 example_env_without_course example_confirmation)
        \<noteq> fst (verify_payment_v2 example_env_without_course example_confirmation)"
    by (simp add: handler_defs example_defs)
  then show "\<exists>env' req_body'.
        fst (verify_payment_v1 env' req_body') \<noteq> fst (verify_payment_v2 env' req_body')"
    by blast
qed

theorem verify_payment_versions_differ_witness:
  "truthy (destructure example_confirmation ''razorpay_order_id'')
   \<and> KEY_SECRET example_env = Some ''s3cret''
   \<and> verify_payment_v1 example_env example_confirmation =
       (\<lparr>status = 200, json = success\<rparr>,
        [ConsoleLog [JStr ''PAYMENT VERIFIED:'',
           JObj [(''razorpay_order_id'', JStr ''order_1''),
                 (''razorpay_payment_id'', JStr ''pay_abc'')]]])
   \<and> fst (verify_payment_v2 example_env example_confirmation) = \<lparr>status = 200, json = success\<rparr>
   \<and> filter upstream_call (snd (verify_payment_v2 example_env example_confirmation)) =
       [OrdersFetch (JStr ''order_1''), CoursesSingle (JStr ''intro-ts''),
        UserCoursesInsert (JObj [(''user_id'', JStr ''u123''), (''course_id'', JNum 7)])]"
proof -
  have fields: "destructure example_confirmation ''razorpay_order_id'' = JStr ''order_1''"
    "destructure example_confirmation ''razorpay_payment_id'' = JStr ''pay_abc''"
    "destructure example_confirmation ''razorpay_signature'' = JStr ''s3cret/order_1|pay_abc''"
    by (simp_all add: destructure_def example_confirmation_def)
  have key: "KEY_SECRET example_env = Some ''s3cret''"
    and digest: "createHmac_sha256_hex example_env ''s3cret'' ''order_1|pay_abc'' =
                   ''s3cret/order_1|pay_abc''"
    by (simp_all add: example_defs)
  have v2: "fst (verify_payment_v2 example_env example_confirmation) = \<lparr>status = 200, json = success\<rparr>"
    "filter upstream_call (snd (verify_payment_v2 example_env example_confirmation)) =
       [OrdersFetch (JStr ''order_1''), CoursesSingle (JStr ''intro-ts''),
        UserCoursesInsert (JObj [(''user_id'', JStr ''u123''), (''course_id'', JNum 7)])]"
    by (simp_all add: handler_defs example_defs)
  from verify_payment_versions_differ
         [of example_confirmation example_env "''s3cret''" "''order_1|pay_abc''"]
  have "verify_payment_v1 example_env example_confirmation =
       (\<lparr>status = 200, json = success\<rparr>,
        [ConsoleLog [JStr ''PAYMENT VERIFIED:'',
           JObj [(''razorpay_order_id'', JStr ''order_1''),
                 (''razorpay_payment_id'', JStr ''pay_abc'')]]])"
    by (simp add: fields key digest signed_body_def)
  moreover have "truthy (destructure example_confirmation ''razorpay_order_id'')"
    by (simp add: fields)
  ultimately show ?thesis
    using key v2 by blast
qed

text \<open>
  The claim as stated fails where a guard of the second version stops the request: with
  a valid signature and an order whose notes carry no user, the second version answers
  500 after the order fetch alone, with no course lookup and no insert, while the first
  version answers \<^verbatim>\<open>{success: true}\<close>.
\<close>

theorem verify_payment_v2_stops_after_fetch_counterexample:
  "destructure example_confirmation ''razorpay_signature'' =
     JStr (createHmac_sha256_hex example_env_without_user ''s3cret'' ''order_1|pay_abc'')
   \<and> fst (verify_payment_v1 example_env_without_user example_confirmation) =
       \<lparr>status = 200, json = success\<rparr>
   \<and> fst (verify_payment_v2 example_env_without_user example_confirmation) =
       \<lparr>status = 500, json = failure ''Missing metadata''\<rparr>
   \<and> filter upstream_call (snd (verify_payment_v2 example_env_without_user example_confirmation)) =
       [OrdersFetch (JStr ''order_1'')]"
  by (simp add: handler_defs example_defs)

section \<open>Presence of a field is truthiness\<close>

text \<open>
  C10: the handlers of the second version decide the presence of a field by
  truthiness. Create-order answers 400 exactly when \<^verbatim>\<open>amount\<close>, \<^verbatim>\<open>course_slug\<close> or
  \<^verbatim>\<open>user_id\<close> is falsy; a request whose amount is 0, or in which one of the three is the
  empty string, gets the 400 response and reaches no gateway, and that response is the one
  the request gets with the field removed. Likewise verify-payment answers a request in
  which one of its three fields is the empty string as it answers the request with the
  field removed: 400 "Missing payment details", no effect.
\<close>

theorem field_presence_is_truthiness:
  "(status (fst (create_order_v2 env req_body)) = 400 \<longleftrightarrow>
      \<not> truthy (destructure req_body ''amount'') \<or>
      \<not> truthy (destructure req_body ''course_slug'') \<or>
      \<not> truthy (destructure req_body ''user_id''))
   \<and> (destructure req_body ''amount'' = JNum 0 \<or>
       (name \<in> {''amount'', ''course_slug'', ''user_id''} \<and> destructure req_body name = JStr []) \<longrightarrow>
       fst (create_order_v2 env req_body) =
         \<lparr>status = 400,
           json = JObj [(''error'', JStr ''Amount, course_slug and user_id are required'')]\<rparr>
       \<and> (\<forall>options. OrdersCreate options \<notin> set (snd (create_order_v2 env req_body))))
   \<and> (name \<in> {''amount'', ''course_slug'', ''user_id''} \<longrightarrow>
       fst (create_order_v2 env (filter (\<lambda>p. fst p \<noteq> name) req_body)) =
         \<lparr>status = 400,
           json = JObj [(''error'', JStr ''Amount, course_slug and user_id are required'')]\<rparr>)
   \<and> (field \<in> {''razorpay_order_id'', ''razorpay_payment_id'', ''razorpay_signature''} \<and>
       destructure req_body field = JStr [] \<longrightarrow>
       verify_payment_v2 env req_body =
         (\<lparr>status = 400, json = failure ''Missing payment details''\<rparr>, []))
   \<and> (field \<in> {''razorpay_order_id'', ''razorpay_payment_id'', ''razorpay_signature''} \<longrightarrow>
       verify_payment_v2 env (filter (\<lambda>p. fst p \<noteq> field) req_body) =
         (\<lparr>status = 400, json = failure ''Missing payment details''\<rparr>, []))"
proof (intro conjI)
  show "status (fst (create_order_v2 env req_body)) = 400 \<longleftrightarrow>
      \<not> truthy (destructure req_body ''amount'') \<or>
      \<not> truthy (destructure req_body ''course_slug'') \<or>
      \<not> truthy (destructure req_body ''user_id'')"
    by (auto simp: create_order_v2_def create_catch_def Let_def split: outcome.splits)
  show "destructure req_body ''amount'' = JNum 0 \<or>
       (name \<in> {''amount'', ''course_slug'', ''user_id''} \<and> destructure req_body name = JStr []) \<longrightarrow>
       fst (create_order_v2 env req_body) =
         \<lparr>status = 400,
           json = JObj [(''error'', JStr ''Amount, course_slug and user_id are required'')]\<rparr>
       \<and> (\<forall>options. OrdersCreate options \<notin> set (snd (create_order_v2 env req_body)))"
    by (auto simp: create_order_v2_def Let_def)
  show "name \<in> {''amount'', ''course_slug'', ''user_id''} \<longrightarrow>
       fst (create_order_v2 env (filter (\<lambda>p. fst p \<noteq> name) req_body)) =
         \<lparr>status = 400,
           json = JObj [(''error'', JStr ''Amount, course_slug and user_id are required'')]\<rparr>"
    using destructure_removed [of name req_body]
    by (auto simp: create_order_v2_def Let_def)
  show "field \<in> {''razorpay_order_id'', ''razorpay_payment_id'', ''razorpay_signature''} \<and>
       destructure req_body field = JStr [] \<longrightarrow>
       verify_payment_v2 env req_body =
         (\<lparr>status = 400, json = failure ''Missing payment details''\<rparr>, [])"
    by (auto simp: verify_payment_v2_def Let_def)
  show "field \<in> {''razorpay_order_id'', ''razorpay_payment_id'', ''razorpay_signature''} \<longrightarrow>
       verify_payment_v2 env (filter (\<lambda>p. fst p \<noteq> field) req_body) =
         (\<lparr>status = 400, json = failure ''Missing payment details''\<rparr>, [])"
    using destructure_removed [of field req_body]
    by (auto simp: verify_payment_v2_def Let_def)
qed

theorem field_presence_is_truthiness_witness:
  "destructure ((''amount'', JNum 0) # example_purchase) ''amount'' = JNum 0
   \<and> fst (create_order_v2 example_env ((''amount'', JNum 0) # example_purchase)) =
       \<lparr>status = 400,
         json = JObj [(''error'', JStr ''Amount, course_slug and user_id are required'')]\<rparr>
   \<and> fst (create_order_v2 example_env
            (filter (\<lambda>p. fst p \<noteq> ''amount'') ((''amount'', JNum 0) # example_purchase))) =
       \<lparr>status = 400,
         json = JObj [(''error'', JStr ''Amount, course_slug and user_id are required'')]\<rparr>
   \<and> destructure ((''razorpay_signature'', JStr []) # example_confirmation) ''razorpay_signature''
       = JStr []
   \<and> verify_payment_v2 example_env ((''razorpay_signature'', JStr []) # example_confirmation) =
       (\<lparr>status = 400, json = failure ''Missing payment details''\<rparr>, [])
   \<and> verify_payment_v2 example_env
        (filter (\<lambda>p. fst p \<noteq> ''razorpay_signature'')
           ((''razorpay_signature'', JStr []) # example_confirmation)) =
       (\<lparr>status = 400, json = failure ''Missing payment details''\<rparr>, [])"
proof -
  have zero: "destructure ((''amount'', JNum 0) # example_purchase) ''amount'' = JNum 0"
    and empty: "destructure ((''razorpay_signature'', JStr []) # example_confirmation)
                  ''razorpay_signature'' = JStr []"
    by (simp_all add: destructure_def)
  have names: "''amount'' \<in> {''amount'', ''course_slug'', ''user_id''}"
    "''razorpay_signature'' \<in> {''razorpay_order_id'', ''razorpay_payment_id'', ''razorpay_signature''}"
    by simp_all
  from field_presence_is_truthiness
         [of example_env "(''amount'', JNum 0) # example_purchase" "''amount''"
             "''razorpay_signature''"]
       field_presence_is_truthiness
         [of example_env "(''razorpay_signature'', JStr []) # example_confirmation" "''amount''"
             "''razorpay_signature''"]
       zero empty names
  show ?thesis
    by blast
qed

end
